theory Spec2Isabelle
  imports Main
begin

section \<open>Python string primitives used by gdkvim.py\<close>

text \<open>
  Python 2 \<open>str\<close> values are byte strings; they are modelled as \<open>string\<close>
  (a list of \<open>char\<close>). The separator of the wire format is the byte 0.
\<close>

definition NUL :: char where
  "NUL = CHR 0x00"

text \<open>\<open>s.split(c)\<close> for a one-character separator: a cut at every occurrence, so
  the result always has one more element than there are separators.\<close>

fun py_split :: "char \<Rightarrow> string \<Rightarrow> string list" where
  "py_split c [] = [[]]"
| "py_split c (x # xs) =
     (if x = c then [] # py_split c xs
      else (case py_split c xs of [] \<Rightarrow> [[x]] | w # ws \<Rightarrow> (x # w) # ws))"

text \<open>\<open>s.startswith(p)\<close>.\<close>

definition startswith :: "string \<Rightarrow> string \<Rightarrow> bool" where
  "startswith s p = (take (length p) s = p)"

text \<open>\<open>'%x' % n\<close> for a non-negative integer: lower-case hexadecimal, no prefix.\<close>

definition hexdigit :: "nat \<Rightarrow> char" where
  "hexdigit d = ''0123456789abcdef'' ! d"

fun hex :: "nat \<Rightarrow> string" where
  "hex n = (if n < 16 then [hexdigit n] else hex (n div 16) @ [hexdigit (n mod 16)])"

text \<open>\<open>'%s' % n\<close> for an integer: decimal, with a minus sign when negative.\<close>

definition decdigit :: "nat \<Rightarrow> char" where
  "decdigit d = ''0123456789'' ! d"

fun str_nat :: "nat \<Rightarrow> string" where
  "str_nat n = (if n < 10 then [decdigit n] else str_nat (n div 10) @ [decdigit (n mod 10)])"

definition str_int :: "int \<Rightarrow> string" where
  "str_int i = (if i < 0 then CHR ''-'' # str_nat (nat (- i)) else str_nat (nat i))"

declare hex.simps [simp del] str_nat.simps [simp del]

section \<open>The state of a VimWindow\<close>

text \<open>
  The callables stored in \<open>self.callbacks\<close>: the closure \<open>gotcwd\<close> of
  \<open>fetch_cwd\<close> (it captures the server name), the closure \<open>cb\<close> of
  \<open>get_hidden_serverlist\<close> (it captures \<open>gotservers\<close>), and a callable handed
  in by the application, identified by a number. A call of the latter is recorded with
  its argument; what the application does in it is not part of this file, and it is
  taken to return normally. The closures of \<open>foreground\<close>, \<open>get_bufferlist\<close> and
  \<open>get_current_buffer\<close> are not modelled.
\<close>

datatype callback = gotcwd string | hidden_serverlist_cb | client_cb nat

text \<open>An argument passed to the application's event sink.\<close>

datatype evt_arg = Str string | StrList "string list"

record VimHidden =
  name :: string
  pid :: "int option"

record VimWindow =
  serial :: int
  callbacks :: "string \<rightharpoonup> callback"
  server_cwds :: "string \<rightharpoonup> string"
  oldservers :: "string list option"
  vim_hidden :: VimHidden
  comm_out :: "(int \<times> string) list"
  events :: "(string \<times> evt_arg list) list"
  logged :: "(string \<times> string \<times> int) list"
  called :: "(nat \<times> string) list"

text \<open>
  \<open>comm_out\<close> collects what \<open>property_change("Comm", ..., PROP_MODE_APPEND, mp)\<close>
  wrote, with the window id written to; \<open>called\<close> collects the calls made to
  application callbacks, with the argument they received.
\<close>

section \<open>MessageCodec: generate_message and parse_message\<close>

definition generate_message ::
  "VimWindow \<Rightarrow> string \<Rightarrow> string \<Rightarrow> string \<Rightarrow> nat \<Rightarrow> VimWindow \<times> string" where
  "generate_message self server cork message sourceid =
     (let self1 =
        (if cork \<noteq> [] then
           (let s = self\<lparr>serial := serial self + 1\<rparr>
            in if serial s > 65530 then s\<lparr>serial := 1\<rparr> else s)
         else self)
      in (self1,
          [NUL] @ cork @ [NUL] @ ''-n '' @ server @ [NUL] @ ''-s '' @ message @ [NUL]
            @ ''-r '' @ hex sourceid @ '' '' @ str_int (serial self1) @ [NUL]))"

text \<open>One iteration of the loop of \<open>parse_message\<close>, on one field already split at
  the spaces.\<close>

definition parse_field :: "(string \<rightharpoonup> string) \<Rightarrow> string list \<Rightarrow> (string \<rightharpoonup> string)" where
  "parse_field messageattrs t =
     (case t of
        [] \<Rightarrow> messageattrs
      | t0 # rest \<Rightarrow>
          if t0 = [] then messageattrs
          else if startswith t0 ''-'' then
            (case rest of [] \<Rightarrow> messageattrs | t1 # _ \<Rightarrow> messageattrs(tl t0 \<mapsto> t1))
          else messageattrs(''t'' \<mapsto> t0))"

definition parse_message :: "string \<Rightarrow> (string \<rightharpoonup> string)" where
  "parse_message message =
     foldl parse_field Map.empty (map (py_split CHR '' '') (py_split NUL message))"

section \<open>What the code reads from its surroundings\<close>

text \<open>Every exception the modelled code can raise is a value.\<close>

datatype error = KeyError | IndexError | ValueError

text \<open>
  A GDK window as \<open>send_message\<close> sees it: only its "Vim" property is read
  (\<open>None\<close> when \<open>property_get\<close> returns \<open>None\<close>).
\<close>

datatype gdk_window = Window (property_Vim: "string option")

text \<open>
  The X display at the time of a call: the data of the root window's "VimRegistry"
  property (\<open>None\<close> when \<open>property_get\<close> returns \<open>None\<close>), what
  \<open>gtk.gdk.window_foreign_new\<close> returns for a window id, and the id of the
  VimWindow's own GDK window.
\<close>

record display =
  VimRegistry :: "string option"
  window_foreign_new :: "int \<Rightarrow> gdk_window option"
  xid :: nat

text \<open>The outcome of \<open>os.waitpid(pid, os.WNOHANG)\<close>: it raises OSError or returns
  a pair \<open>(pid, status)\<close>.\<close>

datatype waitpid_result = Raises_OSError | Returns int int

text \<open>\<open>s.split()\<close> without separator: the maximal runs of non-whitespace bytes.\<close>

definition is_space :: "char \<Rightarrow> bool" where
  "is_space c = (c \<in> {CHR '' '', CHR 0x09, CHR 0x0A, CHR 0x0B, CHR 0x0C, CHR 0x0D})"

fun words_from :: "string \<Rightarrow> string \<Rightarrow> string list" where
  "words_from cur [] = (if cur = [] then [] else [rev cur])"
| "words_from cur (x # xs) =
     (if is_space x then (if cur = [] then words_from [] xs else rev cur # words_from [] xs)
      else words_from (x # cur) xs)"

definition py_words :: "string \<Rightarrow> string list" where
  "py_words s = words_from [] s"

text \<open>
  \<open>int(s, 16)\<close> on a token without whitespace: an optional sign, an optional
  \<open>0x\<close> or \<open>0X\<close>, then at least one hexadecimal digit; anything else raises
  ValueError (\<open>None\<close> here).
\<close>

definition hexval :: "char \<Rightarrow> nat option" where
  "hexval c =
     (let n = (of_char c :: nat)
      in if 48 \<le> n \<and> n \<le> 57 then Some (n - 48)
         else if 97 \<le> n \<and> n \<le> 102 then Some (n - 87)
         else if 65 \<le> n \<and> n \<le> 70 then Some (n - 55)
         else None)"

fun hexnum :: "nat \<Rightarrow> string \<Rightarrow> nat option" where
  "hexnum acc [] = Some acc"
| "hexnum acc (c # cs) =
     (case hexval c of None \<Rightarrow> None | Some d \<Rightarrow> hexnum (16 * acc + d) cs)"

definition int16 :: "string \<Rightarrow> int option" where
  "int16 s =
     (let neg = startswith s ''-'';
          s1 = (if startswith s ''-'' \<or> startswith s ''+'' then tl s else s);
          s2 = (if startswith s1 ''0x'' \<or> startswith s1 ''0X'' then drop 2 s1 else s1)
      in if s2 = [] then None
         else (case hexnum 0 s2 of
                 None \<Rightarrow> None
               | Some n \<Rightarrow> Some (if neg then - int n else int n)))"

text \<open>\<open>s.splitlines()\<close> of a byte string: lines end at \<open>\n\<close>, \<open>\r\<close> or
  \<open>\r\n\<close>, and there is no empty last line.\<close>

fun lines_from :: "string \<Rightarrow> string \<Rightarrow> string list" where
  "lines_from cur [] = (if cur = [] then [] else [rev cur])"
| "lines_from cur [x] =
     (if x = CHR 0x0A \<or> x = CHR 0x0D then [rev cur] else [rev (x # cur)])"
| "lines_from cur (x # y # ys) =
     (if x = CHR 0x0D \<and> y = CHR 0x0A then rev cur # lines_from [] ys
      else if x = CHR 0x0A \<or> x = CHR 0x0D then rev cur # lines_from [] (y # ys)
      else lines_from (x # cur) (y # ys))"

definition splitlines :: "string \<Rightarrow> string list" where
  "splitlines s = lines_from [] s"

section \<open>VimHidden\<close>

text \<open>Python's truth value of \<open>self.pid\<close>: \<open>None\<close> and 0 are false.\<close>

definition pid_set :: "VimHidden \<Rightarrow> bool" where
  "pid_set self = (case pid self of None \<Rightarrow> False | Some p \<Rightarrow> p \<noteq> 0)"

text \<open>\<open>VimHidden.do_init\<close>; \<open>now\<close> is the text of \<open>time.time()\<close>.\<close>

definition VimHidden_do_init :: "string \<Rightarrow> VimHidden" where
  "VimHidden_do_init now = \<lparr>name = ''__'' @ now @ ''_PIDA_HIDDEN'', pid = None\<rparr>"

text \<open>
  \<open>VimHidden.start\<close>; \<open>forked\<close> is the pid that \<open>pty.fork()\<close> returns. In the
  child (pid 0) \<open>os.execvp\<close> replaces the process by Vim and nothing is stored; in the
  parent the child's pid is stored. The file descriptor stored with it is never read
  again, and the pid is also passed on to the application's \<open>accountfork\<close> action.
\<close>

definition start :: "int \<Rightarrow> VimHidden \<Rightarrow> VimHidden" where
  "start forked self =
     (if \<not> pid_set self then (if forked = 0 then self else self\<lparr>pid := Some forked\<rparr>)
      else self)"

definition is_alive :: "(int \<Rightarrow> waitpid_result) \<Rightarrow> VimHidden \<Rightarrow> bool \<times> VimHidden" where
  "is_alive waitpid self =
     (if pid_set self then
        (case waitpid (the (pid self)) of
           Raises_OSError \<Rightarrow> (False, self)
         | Returns p sts \<Rightarrow>
             if Some p = pid self then (False, self\<lparr>pid := None\<rparr>) else (True, self))
      else (False, self))"

section \<open>VimWindow: the application's sink\<close>

text \<open>
  Modelled from the spec: \<open>do_evt\<close> and \<open>do_log\<close> are inherited from
  \<open>pida.base.pidaobject\<close>, which is not part of the source at hand. By the spec
  the first delivers an event, a name and its arguments, to the application's sink
  and the second writes one diagnostic; both are recorded in the state.
\<close>

definition do_evt :: "VimWindow \<Rightarrow> string \<Rightarrow> evt_arg list \<Rightarrow> VimWindow" where
  "do_evt self evt args = self\<lparr>events := events self @ [(evt, args)]\<rparr>"

definition do_log :: "VimWindow \<Rightarrow> string \<Rightarrow> string \<Rightarrow> int \<Rightarrow> VimWindow" where
  "do_log self msg details level = self\<lparr>logged := logged self @ [(msg, details, level)]\<rparr>"

definition feed_serverlist :: "VimWindow \<Rightarrow> string list \<Rightarrow> VimWindow" where
  "feed_serverlist self serverlist = do_evt self ''serverlist'' [StrList serverlist]"

section \<open>VimWindow: looking a server up\<close>

text \<open>One iteration of the loop of \<open>get_rootwindow_serverlist\<close>. The right-hand
  side of the assignment is evaluated before the subscript on the left.\<close>

definition add_rawserver :: "(string \<rightharpoonup> int) \<Rightarrow> string \<Rightarrow> error + (string \<rightharpoonup> int)" where
  "add_rawserver servers rawserver =
     (if rawserver = [] then Inr servers
      else (case py_words rawserver of
              [] \<Rightarrow> Inl IndexError
            | id0 # rest \<Rightarrow>
                (case int16 id0 of
                   None \<Rightarrow> Inl ValueError
                 | Some wid \<Rightarrow>
                     (case rest of
                        [] \<Rightarrow> Inl IndexError
                      | name1 # _ \<Rightarrow> Inr (servers(name1 \<mapsto> wid))))))"

fun add_rawservers :: "(string \<rightharpoonup> int) \<Rightarrow> string list \<Rightarrow> error + (string \<rightharpoonup> int)" where
  "add_rawservers servers [] = Inr servers"
| "add_rawservers servers (rawserver # vimservers) =
     (case add_rawserver servers rawserver of
        Inl e \<Rightarrow> Inl e
      | Inr servers' \<Rightarrow> add_rawservers servers' vimservers)"

definition get_rootwindow_serverlist :: "display \<Rightarrow> error + (string \<rightharpoonup> int)" where
  "get_rootwindow_serverlist dpy =
     (case VimRegistry dpy of
        None \<Rightarrow> Inr Map.empty
      | Some vimregistry \<Rightarrow> add_rawservers Map.empty (py_split NUL vimregistry))"

text \<open>\<open>get_server_wid\<close> catches KeyError only; \<open>wid and long(wid) or None\<close> is
  \<open>None\<close> for the id 0 too.\<close>

definition get_server_wid :: "display \<Rightarrow> string \<Rightarrow> error + int option" where
  "get_server_wid dpy servername =
     (case get_rootwindow_serverlist dpy of
        Inl e \<Rightarrow> Inl e
      | Inr servers \<Rightarrow>
          (case servers servername of
             None \<Rightarrow> Inr None
           | Some wid \<Rightarrow> Inr (if wid \<noteq> 0 then Some wid else None)))"

definition get_server_window :: "display \<Rightarrow> int \<Rightarrow> gdk_window option" where
  "get_server_window dpy wid = window_foreign_new dpy wid"

section \<open>VimWindow: sending\<close>

text \<open>
  \<open>callback\<close> is \<open>None\<close> for the \<open>False\<close> that \<open>send_keys\<close> and
  \<open>change_cursor\<close> pass. The key of the table is the serial as text.
\<close>

definition send_message ::
  "display \<Rightarrow> VimWindow \<Rightarrow> string \<Rightarrow> string \<Rightarrow> bool \<Rightarrow> callback option \<Rightarrow> error + VimWindow" where
  "send_message dpy self servername message asexpr callback =
     (case get_server_wid dpy servername of
        Inl e \<Rightarrow> Inl e
      | Inr None \<Rightarrow> Inr self
      | Inr (Some wid) \<Rightarrow>
          (let cork = (if asexpr then ''c'' else ''k'')
           in case get_server_window dpy wid of
                None \<Rightarrow> Inr self
              | Some sw \<Rightarrow>
                  if property_Vim sw \<noteq> None then
                    (let (self1, mp) = generate_message self servername cork message (xid dpy);
                         self2 = self1\<lparr>comm_out := comm_out self1 @ [(wid, mp)]\<rparr>
                     in case callback of
                          None \<Rightarrow> Inr self2
                        | Some cb \<Rightarrow>
                            if asexpr
                            then Inr (self2\<lparr>callbacks :=
                                              (callbacks self2)(str_int (serial self2) \<mapsto> cb)\<rparr>)
                            else Inr self2)
                  else Inr self))"

definition send_expr ::
  "display \<Rightarrow> VimWindow \<Rightarrow> string \<Rightarrow> string \<Rightarrow> callback option \<Rightarrow> error + VimWindow" where
  "send_expr dpy self server message callback = send_message dpy self server message True callback"

definition send_keys :: "display \<Rightarrow> VimWindow \<Rightarrow> string \<Rightarrow> string \<Rightarrow> error + VimWindow" where
  "send_keys dpy self server message = send_message dpy self server message False None"

definition fetch_cwd :: "display \<Rightarrow> VimWindow \<Rightarrow> string \<Rightarrow> error + VimWindow" where
  "fetch_cwd dpy self servername = send_expr dpy self servername ''getcwd()'' (Some (gotcwd servername))"

section \<open>VimWindow: discovery\<close>

text \<open>The \<open>for\<close> loop of \<open>gotservers\<close>.\<close>

fun fetch_cwds :: "display \<Rightarrow> VimWindow \<Rightarrow> string list \<Rightarrow> error + VimWindow" where
  "fetch_cwds dpy self [] = Inr self"
| "fetch_cwds dpy self (server # rest) =
     (if server_cwds self server = None then
        (case fetch_cwd dpy self server of
           Inl e \<Rightarrow> Inl e
         | Inr self' \<Rightarrow> fetch_cwds dpy self' rest)
      else fetch_cwds dpy self rest)"

definition gotservers :: "display \<Rightarrow> VimWindow \<Rightarrow> string list \<Rightarrow> error + VimWindow" where
  "gotservers dpy self serverlist =
     (case fetch_cwds dpy self serverlist of
        Inl e \<Rightarrow> Inl e
      | Inr self1 \<Rightarrow>
          if Some serverlist \<noteq> oldservers self1
          then Inr (feed_serverlist (self1\<lparr>oldservers := Some serverlist\<rparr>) serverlist)
          else Inr self1)"

text \<open>Calling a stored callable with the text of a reply.\<close>

definition call :: "display \<Rightarrow> VimWindow \<Rightarrow> callback \<Rightarrow> string \<Rightarrow> error + VimWindow" where
  "call dpy self cb reply =
     (case cb of
        gotcwd servername \<Rightarrow>
          Inr (self\<lparr>server_cwds := (server_cwds self)(servername \<mapsto> reply)\<rparr>)
      | hidden_serverlist_cb \<Rightarrow>
          gotservers dpy self [svr \<leftarrow> splitlines reply. \<not> startswith svr ''__'']
      | client_cb i \<Rightarrow> Inr (self\<lparr>called := called self @ [(i, reply)]\<rparr>))"

text \<open>\<open>get_hidden_serverlist(gotservers)\<close>; \<open>waitpid\<close> and \<open>forked\<close> are what the
  operating system answers during the call.\<close>

definition get_hidden_serverlist ::
  "display \<Rightarrow> (int \<Rightarrow> waitpid_result) \<Rightarrow> int \<Rightarrow> VimWindow \<Rightarrow> error + VimWindow" where
  "get_hidden_serverlist dpy waitpid forked self =
     (let (alive, h) = is_alive waitpid (vim_hidden self);
          self1 = self\<lparr>vim_hidden := h\<rparr>
      in if alive then send_expr dpy self1 (name h) ''serverlist()'' (Some hidden_serverlist_cb)
         else Inr (self1\<lparr>vim_hidden := start forked h\<rparr>))"

text \<open>The timer callback; it returns \<open>True\<close> whenever it returns.\<close>

definition fetch_serverlist ::
  "display \<Rightarrow> (int \<Rightarrow> waitpid_result) \<Rightarrow> int \<Rightarrow> VimWindow \<Rightarrow> error + VimWindow" where
  "fetch_serverlist dpy waitpid forked self = get_hidden_serverlist dpy waitpid forked self"

text \<open>\<open>VimWindow.do_init\<close>: the fields it sets, with the hidden Vim started.\<close>

definition VimWindow_do_init :: "string \<Rightarrow> int \<Rightarrow> VimWindow" where
  "VimWindow_do_init now forked =
     \<lparr>serial = 1, callbacks = Map.empty, server_cwds = Map.empty, oldservers = None,
      vim_hidden = start forked (VimHidden_do_init now),
      comm_out = [], events = [], logged = [], called = []\<rparr>"

section \<open>VimWindow: the dispatcher\<close>

definition cb_reply_async :: "VimWindow \<Rightarrow> string \<Rightarrow> VimWindow" where
  "cb_reply_async self data =
     (if count_list data CHR '','' \<noteq> 0 then
        (let evt = takeWhile (\<lambda>c. c \<noteq> CHR '','') data;
             d = tl (dropWhile (\<lambda>c. c \<noteq> CHR '','') data)
         in do_evt self evt (map Str (py_split CHR '','' d)))
      else do_log self ''bad async reply'' data 10)"

definition cb_reply :: "display \<Rightarrow> VimWindow \<Rightarrow> string \<Rightarrow> error + VimWindow" where
  "cb_reply dpy self data =
     (let mdict = parse_message data
      in case mdict ''t'' of
           None \<Rightarrow> Inl KeyError
         | Some t \<Rightarrow>
             if t = ''r'' then
               (case mdict ''s'' of
                  None \<Rightarrow> Inl KeyError
                | Some s \<Rightarrow>
                    (case callbacks self s of
                       None \<Rightarrow> Inr self
                     | Some cb \<Rightarrow>
                         (case mdict ''r'' of
                            None \<Rightarrow> Inl KeyError
                          | Some r \<Rightarrow> call dpy self cb r)))
             else
               (case rev [t \<leftarrow> py_split NUL data. startswith t ''-n''] of
                  [] \<Rightarrow> Inl IndexError
                | s # _ \<Rightarrow> Inr (cb_reply_async self (drop 3 s))))"

text \<open>\<open>cb_notify\<close>: \<open>atom\<close> is the event's atom if it has one, \<open>message\<close> the data
  of the "Comm" property read and deleted. It returns \<open>True\<close> whenever it returns.\<close>

definition cb_notify ::
  "display \<Rightarrow> VimWindow \<Rightarrow> string option \<Rightarrow> string option \<Rightarrow> error + VimWindow" where
  "cb_notify dpy self atom message =
     (if atom = Some ''Comm'' then
        (case message of None \<Rightarrow> Inr self | Some data \<Rightarrow> cb_reply dpy self data)
      else Inr self)"

section \<open>Driving the model\<close>

text \<open>
  A send is delivered when the server name resolves to a window id, the id to a
  window, and that window has its "Vim" property: the three tests of
  \<open>send_message\<close>.
\<close>

definition deliverable :: "display \<Rightarrow> string \<Rightarrow> bool" where
  "deliverable dpy servername =
     (case get_server_wid dpy servername of
        Inr (Some wid) \<Rightarrow>
          (case get_server_window dpy wid of
             Some sw \<Rightarrow> property_Vim sw \<noteq> None
           | None \<Rightarrow> False)
      | _ \<Rightarrow> False)"

text \<open>A sequence of \<open>send_expr\<close> calls, one after the other, stopping at the first
  exception.\<close>

fun send_exprs ::
  "display \<Rightarrow> VimWindow \<Rightarrow> (string \<times> string \<times> callback option) list \<Rightarrow> error + VimWindow" where
  "send_exprs dpy self [] = Inr self"
| "send_exprs dpy self ((server, message, callback) # rest) =
     (case send_expr dpy self server message callback of
        Inl e \<Rightarrow> Inl e
      | Inr self' \<Rightarrow> send_exprs dpy self' rest)"

text \<open>
  The display of the examples: two registered servers, \<open>editor_A\<close> at window
  \<open>0x1f4\<close>, which is alive, and \<open>editor_B\<close> at \<open>0x2bc\<close>, which is gone; the
  VimWindow's own id is \<open>0x2a00003\<close>.
\<close>

definition example_display :: display where
  "example_display =
     \<lparr>VimRegistry = Some (''1f4 editor_A'' @ [NUL] @ ''2bc editor_B'' @ [NUL]),
      window_foreign_new = (\<lambda>wid. if wid = 500 then Some (Window (Some ''6.0'')) else None),
      xid = 44040195\<rparr>"

section \<open>Facts about the string primitives\<close>

lemma py_split_no_sep: "c \<notin> set a \<Longrightarrow> py_split c a = [a]"
  by (induction a) auto

lemma py_split_append: "c \<notin> set a \<Longrightarrow> py_split c (a @ c # rest) = a # py_split c rest"
  by (induction a) auto

lemma hexdigit_in: "d < 16 \<Longrightarrow> hexdigit d \<in> set ''0123456789abcdef''"
  unfolding hexdigit_def by (rule nth_mem) simp

lemma decdigit_in: "d < 10 \<Longrightarrow> decdigit d \<in> set ''0123456789''"
  unfolding decdigit_def by (rule nth_mem) simp

lemma hex_chars: "set (hex n) \<subseteq> set ''0123456789abcdef''"
proof (induction n rule: hex.induct)
  case (1 n)
  show ?case
  proof (cases "n < 16")
    case True
    then show ?thesis using hexdigit_in [of n] by (subst hex.simps) simp
  next
    case False
    have "n mod 16 < 16" by simp
    then have "hexdigit (n mod 16) \<in> set ''0123456789abcdef''" by (rule hexdigit_in)
    with False 1 show ?thesis by (subst hex.simps) simp
  qed
qed

lemma str_nat_chars: "set (str_nat n) \<subseteq> set ''0123456789''"
proof (induction n rule: str_nat.induct)
  case (1 n)
  show ?case
  proof (cases "n < 10")
    case True
    then show ?thesis using decdigit_in [of n] by (subst str_nat.simps) simp
  next
    case False
    have "n mod 10 < 10" by simp
    then have "decdigit (n mod 10) \<in> set ''0123456789''" by (rule decdigit_in)
    with False 1 show ?thesis by (subst str_nat.simps) simp
  qed
qed

lemma hex_no_NUL: "NUL \<notin> set (hex n)"
  using hex_chars [of n] by (auto simp: NUL_def)

lemma hex_no_space: "CHR '' '' \<notin> set (hex n)"
  using hex_chars [of n] by auto

lemma str_int_no_NUL: "NUL \<notin> set (str_int i)"
  using str_nat_chars [of "nat i"] str_nat_chars [of "nat (- i)"]
  by (auto simp: NUL_def str_int_def)

lemma str_int_digits: "str_int 1 = ''1''" "str_int 2 = ''2''" "str_int 3 = ''3''"
  by (simp_all add: str_int_def str_nat.simps decdigit_def)

section \<open>MessageCodec: encoding, then decoding\<close>

lemma frame_fields:
  assumes "NUL \<notin> set cork" "NUL \<notin> set server" "NUL \<notin> set message" "NUL \<notin> set ser"
  shows "py_split NUL ([NUL] @ cork @ [NUL] @ ''-n '' @ server @ [NUL] @ ''-s '' @ message @ [NUL]
            @ ''-r '' @ hex sourceid @ '' '' @ ser @ [NUL]) =
     [[], cork, ''-n '' @ server, ''-s '' @ message, ''-r '' @ hex sourceid @ '' '' @ ser, []]"
proof -
  have r: "NUL \<notin> set (hex sourceid @ '' '' @ ser)"
    using assms(4) hex_no_NUL [of sourceid] by (simp add: NUL_def)
  have 1: "py_split NUL ((hex sourceid @ '' '' @ ser) @ NUL # []) = [hex sourceid @ '' '' @ ser, []]"
    using py_split_append [OF r, of "[]"] by simp
  have 2: "py_split NUL (message @ NUL # rest) = message # py_split NUL rest" for rest
    using py_split_append [OF assms(3)] by simp
  have 3: "py_split NUL (server @ NUL # rest) = server # py_split NUL rest" for rest
    using py_split_append [OF assms(2)] by simp
  have 4: "py_split NUL (cork @ NUL # rest) = cork # py_split NUL rest" for rest
    using py_split_append [OF assms(1)] by simp
  have n: "CHR ''-'' \<noteq> NUL" "CHR ''n'' \<noteq> NUL" "CHR ''s'' \<noteq> NUL" "CHR ''r'' \<noteq> NUL" "CHR '' '' \<noteq> NUL"
    by (simp_all add: NUL_def)
  show ?thesis
    using 1 by (simp add: 2 3 4 n)
qed

lemma field_words:
  assumes "CHR '' '' \<notin> set v" "CHR '' '' \<notin> set k"
  shows "py_split CHR '' '' (k @ '' '' @ v) = [k, v]"
  using py_split_append [OF assms(2), of v] py_split_no_sep [OF assms(1)] by simp

lemma field_words_more:
  assumes "CHR '' '' \<notin> set v" "CHR '' '' \<notin> set k"
  shows "\<exists>rest. py_split CHR '' '' (k @ '' '' @ v @ '' '' @ w) = k # v # rest"
  using py_split_append [OF assms(2), of "v @ '' '' @ w"] py_split_append [OF assms(1), of w]
  by simp

text \<open>
  C1, as the code has it. For every outbound frame whose target and payload hold
  neither a NUL byte nor a space, and whose cork is \<open>c\<close> or \<open>k\<close>, decoding the
  bytes that \<open>generate_message\<close> produced gives exactly four entries: the cork under
  \<open>t\<close>, the target under \<open>n\<close>, the payload under \<open>s\<close> and the source id in
  hexadecimal under \<open>r\<close>. The serial, the second word of the \<open>-r\<close> field, is not
  part of the decoded mapping.
\<close>

theorem generate_parse_roundtrip:
  assumes "NUL \<notin> set server" "CHR '' '' \<notin> set server"
    and "NUL \<notin> set message" "CHR '' '' \<notin> set message"
    and "cork = ''c'' \<or> cork = ''k''"
  shows "parse_message (snd (generate_message self server cork message sourceid)) =
     [''t'' \<mapsto> cork, ''n'' \<mapsto> server, ''s'' \<mapsto> message, ''r'' \<mapsto> hex sourceid]"
proof -
  define ser where "ser = str_int (serial (fst (generate_message self server cork message sourceid)))"
  have c: "NUL \<notin> set cork" "CHR '' '' \<notin> set cork" "cork \<noteq> []" "startswith cork ''-'' = False"
    using assms(5) by (auto simp: NUL_def startswith_def)
  have s: "NUL \<notin> set ser" unfolding ser_def by (rule str_int_no_NUL)
  have g: "snd (generate_message self server cork message sourceid) =
      [NUL] @ cork @ [NUL] @ ''-n '' @ server @ [NUL] @ ''-s '' @ message @ [NUL]
            @ ''-r '' @ hex sourceid @ '' '' @ ser @ [NUL]"
    unfolding ser_def by (simp add: generate_message_def Let_def)
  have sw: "startswith ''-n'' ''-''" "startswith ''-s'' ''-''" "startswith ''-r'' ''-''"
    by (simp_all add: startswith_def)
  have f1: "py_split CHR '' '' cork = [cork]" using c(2) by (rule py_split_no_sep)
  have f2: "py_split CHR '' '' (''-n '' @ server) = [''-n'', server]"
    using field_words [OF assms(2), of "''-n''"] by simp
  have f3: "py_split CHR '' '' (''-s '' @ message) = [''-s'', message]"
    using field_words [OF assms(4), of "''-s''"] by simp
  obtain rest where f4:
    "py_split CHR '' '' (''-r '' @ hex sourceid @ '' '' @ ser) = ''-r'' # hex sourceid # rest"
    using field_words_more [OF hex_no_space, of "''-r''" sourceid ser] by auto
  show ?thesis
    unfolding g parse_message_def frame_fields [OF c(1) assms(1) assms(3) s]
    by (simp add: f1 f2 f3 f4 parse_field_def c sw del: append.simps)
qed

theorem generate_parse_roundtrip_witness:
  "NUL \<notin> set ''editor_A'' \<and> CHR '' '' \<notin> set ''editor_A''
   \<and> NUL \<notin> set ''getcwd()'' \<and> CHR '' '' \<notin> set ''getcwd()''
   \<and> parse_message
        (snd (generate_message (VimWindow_do_init ''0'' 4242) ''editor_A'' ''c'' ''getcwd()'' 500)) =
      [''t'' \<mapsto> ''c'', ''n'' \<mapsto> ''editor_A'', ''s'' \<mapsto> ''getcwd()'', ''r'' \<mapsto> ''1f4'']"
proof -
  have h: "NUL \<notin> set ''editor_A''" "CHR '' '' \<notin> set ''editor_A''"
    "NUL \<notin> set ''getcwd()''" "CHR '' '' \<notin> set ''getcwd()''"
    by (simp_all add: NUL_def)
  have x: "hex 500 = ''1f4''" by (simp add: hex.simps hexdigit_def)
  show ?thesis
    using h generate_parse_roundtrip [OF h, of "''c''" "VimWindow_do_init ''0'' 4242" 500]
    by (simp add: x)
qed

text \<open>
  C1 as stated fails: two frames that differ in the serial alone (2 and 3) are different
  byte strings with one and the same decoding, whose \<open>r\<close> entry is the source id
  only; the serial cannot be recovered.
\<close>

theorem generate_parse_loses_serial:
  "snd (generate_message ((VimWindow_do_init ''0'' 4242)\<lparr>serial := 1\<rparr>) ''editor_A'' ''c'' ''getcwd()'' 500)
     \<noteq> snd (generate_message ((VimWindow_do_init ''0'' 4242)\<lparr>serial := 2\<rparr>) ''editor_A'' ''c'' ''getcwd()'' 500)
   \<and> parse_message
        (snd (generate_message ((VimWindow_do_init ''0'' 4242)\<lparr>serial := 1\<rparr>) ''editor_A'' ''c'' ''getcwd()'' 500))
      = parse_message
        (snd (generate_message ((VimWindow_do_init ''0'' 4242)\<lparr>serial := 2\<rparr>) ''editor_A'' ''c'' ''getcwd()'' 500))
   \<and> parse_message
        (snd (generate_message ((VimWindow_do_init ''0'' 4242)\<lparr>serial := 1\<rparr>) ''editor_A'' ''c'' ''getcwd()'' 500))
        ''r'' = Some ''1f4''"
  by (simp add: generate_message_def parse_message_def parse_field_def
      hex.simps str_nat.simps str_int_def hexdigit_def decdigit_def NUL_def startswith_def)

section \<open>Sending\<close>

lemma example_registry:
  "get_rootwindow_serverlist example_display = Inr [''editor_A'' \<mapsto> 500, ''editor_B'' \<mapsto> 700]"
  by (simp add: example_display_def get_rootwindow_serverlist_def add_rawserver_def
      py_words_def is_space_def int16_def hexval_def startswith_def NUL_def)

lemma example_wid_A: "get_server_wid example_display ''editor_A'' = Inr (Some 500)"
  by (simp add: get_server_wid_def example_registry)

lemma example_window_A: "get_server_window example_display 500 = Some (Window (Some ''6.0''))"
  by (simp add: get_server_window_def example_display_def)

lemma example_window_B: "get_server_window example_display 700 = None"
  by (simp add: get_server_window_def example_display_def)

lemma example_deliverable_A: "deliverable example_display ''editor_A''"
  by (simp add: deliverable_def example_wid_A example_window_A)

lemma example_xid: "hex (xid example_display) = ''2a00003''"
  by (simp add: example_display_def hex.simps hexdigit_def)

lemma send_message_delivered:
  assumes "get_server_wid dpy servername = Inr (Some wid)"
    and "get_server_window dpy wid = Some sw" and "property_Vim sw \<noteq> None"
  shows "send_message dpy self servername message asexpr callback =
     Inr (self\<lparr>serial := (if serial self + 1 > 65530 then 1 else serial self + 1),
               callbacks := (if asexpr \<and> callback \<noteq> None
                             then (callbacks self)
                                    (str_int (if serial self + 1 > 65530 then 1 else serial self + 1)
                                       \<mapsto> the callback)
                             else callbacks self),
               comm_out := comm_out self @
                 [(wid, [NUL] @ (if asexpr then ''c'' else ''k'') @ [NUL] @ ''-n '' @ servername @ [NUL]
                        @ ''-s '' @ message @ [NUL] @ ''-r '' @ hex (xid dpy) @ '' ''
                        @ str_int (if serial self + 1 > 65530 then 1 else serial self + 1) @ [NUL])]\<rparr>)"
  using assms
  by (cases callback; cases asexpr) (simp_all add: send_message_def generate_message_def Let_def)

lemma deliverableE:
  assumes "deliverable dpy servername"
  obtains wid sw where "get_server_wid dpy servername = Inr (Some wid)"
    and "get_server_window dpy wid = Some sw" and "property_Vim sw \<noteq> None"
  using assms unfolding deliverable_def by (auto split: sum.splits option.splits)

lemma next_serial:
  assumes "1 \<le> s" "s \<le> 65530"
  shows "(if s + 1 > 65530 then 1 else s + 1) = int (nat s mod 65530) + (1::int)"
  using assms by (cases "s = 65530") auto

lemma send_expr_step:
  assumes "deliverable dpy server" "1 \<le> serial self" "serial self \<le> 65530"
  shows "\<exists>self1. send_expr dpy self server message callback = Inr self1
      \<and> serial self1 = int (nat (serial self) mod 65530) + 1
      \<and> map snd (comm_out self1) = map snd (comm_out self) @
           [[NUL] @ ''c'' @ [NUL] @ ''-n '' @ server @ [NUL] @ ''-s '' @ message @ [NUL]
              @ ''-r '' @ hex (xid dpy) @ '' '' @ str_int (int (nat (serial self) mod 65530) + 1) @ [NUL]]"
proof -
  from assms(1) obtain wid sw where w: "get_server_wid dpy server = Inr (Some wid)"
    "get_server_window dpy wid = Some sw" "property_Vim sw \<noteq> None"
    by (rule deliverableE)
  show ?thesis
    unfolding send_expr_def send_message_delivered [OF w] next_serial [OF assms(2,3)]
    by simp
qed

lemma send_exprs_frames:
  assumes "\<forall>c \<in> set calls. deliverable dpy (fst c)" "1 \<le> serial self" "serial self \<le> 65530"
  shows "\<exists>self'. send_exprs dpy self calls = Inr self'
     \<and> map snd (comm_out self') = map snd (comm_out self) @
          map (\<lambda>k. [NUL] @ ''c'' @ [NUL] @ ''-n '' @ fst (calls ! k) @ [NUL]
                   @ ''-s '' @ fst (snd (calls ! k)) @ [NUL] @ ''-r '' @ hex (xid dpy) @ '' ''
                   @ str_int (int ((nat (serial self) + k) mod 65530) + 1) @ [NUL])
              [0..<length calls]"
  using assms
proof (induction calls arbitrary: self)
  case Nil
  then show ?case by simp
next
  case (Cons c rest)
  obtain server message callback where c: "c = (server, message, callback)"
    by (cases c) auto
  from Cons.prems(1) have d: "deliverable dpy server" by (simp add: c)
  from send_expr_step [OF d Cons.prems(2,3), of message callback]
  obtain self1 where s1: "send_expr dpy self server message callback = Inr self1"
    "serial self1 = int (nat (serial self) mod 65530) + 1"
    "map snd (comm_out self1) = map snd (comm_out self) @
           [[NUL] @ ''c'' @ [NUL] @ ''-n '' @ server @ [NUL] @ ''-s '' @ message @ [NUL]
              @ ''-r '' @ hex (xid dpy) @ '' '' @ str_int (int (nat (serial self) mod 65530) + 1) @ [NUL]]"
    by blast
  have r: "1 \<le> serial self1" "serial self1 \<le> 65530"
    using s1(2) by simp_all
  have m: "(nat (serial self1) + k) mod 65530 = (nat (serial self) + Suc k) mod 65530" for k
  proof -
    have "nat (serial self1) = nat (serial self) mod 65530 + 1"
      using s1(2) by simp
    moreover have "(nat (serial self) mod 65530 + (1 + k)) mod 65530 = (nat (serial self) + (1 + k)) mod 65530"
      by (rule mod_add_left_eq)
    ultimately show ?thesis by (simp add: add.assoc)
  qed
  from Cons.prems(1) have "\<forall>c \<in> set rest. deliverable dpy (fst c)" by simp
  from Cons.IH [OF this r]
  obtain self' where s': "send_exprs dpy self1 rest = Inr self'"
    "map snd (comm_out self') = map snd (comm_out self1) @
          map (\<lambda>k. [NUL] @ ''c'' @ [NUL] @ ''-n '' @ fst (rest ! k) @ [NUL]
                   @ ''-s '' @ fst (snd (rest ! k)) @ [NUL] @ ''-r '' @ hex (xid dpy) @ '' ''
                   @ str_int (int ((nat (serial self1) + k) mod 65530) + 1) @ [NUL])
              [0..<length rest]"
    by blast
  have "send_exprs dpy self (c # rest) = Inr self'"
    by (simp add: c s1(1) s'(1))
  moreover have "map snd (comm_out self') = map snd (comm_out self) @
          map (\<lambda>k. [NUL] @ ''c'' @ [NUL] @ ''-n '' @ fst ((c # rest) ! k) @ [NUL]
                   @ ''-s '' @ fst (snd ((c # rest) ! k)) @ [NUL] @ ''-r '' @ hex (xid dpy) @ '' ''
                   @ str_int (int ((nat (serial self) + k) mod 65530) + 1) @ [NUL])
              [0..<length (c # rest)]"
    unfolding s'(2) s1(3) m
    by (simp add: map_upt_Suc c del: upt_Suc)
  ultimately show ?case by blast
qed


text \<open>
  C2, as the code has it. \<open>do_init\<close> sets the serial to 1 and \<open>generate_message\<close>
  adds one before it writes the frame. So, for every sequence of expression calls from a
  fresh VimWindow that are all delivered, the call number \<open>k + 1\<close> carries the serial
  \<open>(k + 1) mod 65530 + 1\<close>: 2 for the first call, 3 for the second, one more each time
  up to 65530, and 1 after 65530.
\<close>

theorem send_expr_serials:
  assumes "\<forall>c \<in> set calls. deliverable dpy (fst c)"
  shows "\<exists>self'. send_exprs dpy (VimWindow_do_init now forked) calls = Inr self'
     \<and> map snd (comm_out self') =
          map (\<lambda>k. [NUL] @ ''c'' @ [NUL] @ ''-n '' @ fst (calls ! k) @ [NUL]
                   @ ''-s '' @ fst (snd (calls ! k)) @ [NUL] @ ''-r '' @ hex (xid dpy) @ '' ''
                   @ str_int (int (Suc k mod 65530) + 1) @ [NUL])
              [0..<length calls]"
proof -
  have i: "serial (VimWindow_do_init now forked) = 1" "comm_out (VimWindow_do_init now forked) = []"
    by (simp_all add: VimWindow_do_init_def)
  have "1 \<le> serial (VimWindow_do_init now forked)" "serial (VimWindow_do_init now forked) \<le> 65530"
    by (simp_all add: i)
  from send_exprs_frames [OF assms this] show ?thesis
    by (simp add: i)
qed

theorem send_expr_serials_witness:
  "deliverable example_display (fst (''editor_A'', ''getcwd()'', Some (client_cb 0)))
   \<and> deliverable example_display (fst (''editor_A'', ''bufnr()'', Some (client_cb 1)))
   \<and> (\<exists>self'. send_exprs example_display (VimWindow_do_init ''0'' 4242)
                 [(''editor_A'', ''getcwd()'', Some (client_cb 0)),
                  (''editor_A'', ''bufnr()'', Some (client_cb 1))] = Inr self'
        \<and> map snd (comm_out self') =
            [[NUL] @ ''c'' @ [NUL] @ ''-n editor_A'' @ [NUL] @ ''-s getcwd()'' @ [NUL]
               @ ''-r 2a00003 2'' @ [NUL],
             [NUL] @ ''c'' @ [NUL] @ ''-n editor_A'' @ [NUL] @ ''-s bufnr()'' @ [NUL]
               @ ''-r 2a00003 3'' @ [NUL]])"
proof -
  have h: "\<forall>c \<in> set [(''editor_A'', ''getcwd()'', Some (client_cb 0)),
                  (''editor_A'', ''bufnr()'', Some (client_cb 1))].
        deliverable example_display (fst c)"
    by (simp add: example_deliverable_A)
  have u: "[0..<2] = [0, 1]" by (simp add: upt_rec)
  show ?thesis
    using example_deliverable_A send_expr_serials [OF h, of "''0''" 4242]
    by (simp add: example_xid str_int_digits u)
qed

text \<open>
  C2 as stated fails: from a fresh VimWindow the first expression call carries the
  serial 2 and the second the serial 3.
\<close>

theorem second_call_carries_3:
  "send_exprs example_display (VimWindow_do_init ''0'' 4242)
     [(''editor_A'', ''getcwd()'', Some (client_cb 0)),
      (''editor_A'', ''getcwd()'', Some (client_cb 1))] =
   Inr ((VimWindow_do_init ''0'' 4242)
         \<lparr>serial := 3,
          callbacks := [''2'' \<mapsto> client_cb 0, ''3'' \<mapsto> client_cb 1],
          comm_out :=
            [(500, [NUL] @ ''c'' @ [NUL] @ ''-n editor_A'' @ [NUL] @ ''-s getcwd()'' @ [NUL]
                     @ ''-r 2a00003 2'' @ [NUL]),
             (500, [NUL] @ ''c'' @ [NUL] @ ''-n editor_A'' @ [NUL] @ ''-s getcwd()'' @ [NUL]
                     @ ''-r 2a00003 3'' @ [NUL])]\<rparr>)"
proof -
  have s: "serial (VimWindow_do_init ''0'' 4242) = 1" "comm_out (VimWindow_do_init ''0'' 4242) = []"
    "callbacks (VimWindow_do_init ''0'' 4242) = Map.empty"
    by (simp_all add: VimWindow_do_init_def)
  show ?thesis
    by (simp add: send_expr_def send_message_delivered [OF example_wid_A example_window_A]
        s example_xid str_int_digits)
qed

text \<open>
  C3 at a key send that is delivered: \<open>send_keys\<close> on a fresh VimWindow leaves the
  table of callbacks as it was, but the serial goes from 1 to 2, because the test
  \<open>if cork\<close> of \<open>generate_message\<close> holds for the cork \<open>k\<close> as well.
\<close>

theorem send_keys_consumes_serial:
  "send_keys example_display (VimWindow_do_init ''0'' 4242) ''editor_A'' '':w'' =
    Inr ((VimWindow_do_init ''0'' 4242)
          \<lparr>serial := 2,
           comm_out := [(500, [NUL] @ ''k'' @ [NUL] @ ''-n editor_A'' @ [NUL] @ ''-s :w'' @ [NUL]
                               @ ''-r 2a00003 2'' @ [NUL])]\<rparr>)
   \<and> serial (VimWindow_do_init ''0'' 4242) = 1"
proof -
  have s: "serial (VimWindow_do_init ''0'' 4242) = 1" "comm_out (VimWindow_do_init ''0'' 4242) = []"
    by (simp_all add: VimWindow_do_init_def)
  show ?thesis
    unfolding send_keys_def
    by (subst send_message_delivered [OF example_wid_A example_window_A])
       (simp_all add: s example_xid str_int_digits)
qed

lemma add_rawserver_returns:
  "(\<exists>servers'. add_rawserver servers rawserver = Inr servers') \<longleftrightarrow>
     (rawserver = [] \<or> (\<exists>id0 name1 rest. py_words rawserver = id0 # name1 # rest \<and> int16 id0 \<noteq> None))"
  by (auto simp: add_rawserver_def split: list.splits option.splits)

lemma add_rawservers_returns:
  "(\<exists>servers'. add_rawservers servers vimservers = Inr servers') \<longleftrightarrow>
     (\<forall>rawserver \<in> set vimservers. rawserver = []
        \<or> (\<exists>id0 name1 rest. py_words rawserver = id0 # name1 # rest \<and> int16 id0 \<noteq> None))"
proof (induction vimservers arbitrary: servers)
  case Nil
  then show ?case by simp
next
  case (Cons r rs)
  show ?case
  proof (cases "add_rawserver servers r")
    case (Inl e)
    with add_rawserver_returns [of servers r] show ?thesis by auto
  next
    case (Inr s')
    with add_rawserver_returns [of servers r] Cons.IH [of s'] show ?thesis by auto
  qed
qed

lemma get_rootwindow_serverlist_returns:
  "(\<exists>servers. get_rootwindow_serverlist dpy = Inr servers) \<longleftrightarrow>
     (case VimRegistry dpy of
        None \<Rightarrow> True
      | Some vimregistry \<Rightarrow>
          (\<forall>rawserver \<in> set (py_split NUL vimregistry). rawserver = []
             \<or> (\<exists>id0 name1 rest. py_words rawserver = id0 # name1 # rest \<and> int16 id0 \<noteq> None)))"
  by (simp add: get_rootwindow_serverlist_def add_rawservers_returns split: option.splits)

text \<open>
  C7, as the code has it. Suppose that reading the registry of the root window raises
  no exception, which is the case exactly when the property is absent or each of its
  non-empty entries has at least two words of which the first is a hexadecimal number.
  When the mapping read does not hold the server name, or holds it with the window id
  0, or with an id for which \<open>window_foreign_new\<close> returns no window, or with the id of
  a window whose "Vim" property reads \<open>None\<close>, \<open>send_message\<close> returns normally and
  leaves the whole state as it was: nothing is written to a "Comm" property, no
  callback is stored, none is called, and the serial is not touched.
\<close>

theorem send_message_unresolved_noop:
  assumes "get_rootwindow_serverlist dpy = Inr servers"
    and "servers servername = None \<or> servers servername = Some 0
         \<or> (\<exists>wid. servers servername = Some wid
               \<and> (get_server_window dpy wid = None
                    \<or> (\<exists>sw. get_server_window dpy wid = Some sw \<and> property_Vim sw = None)))"
  shows "send_message dpy self servername message asexpr callback = Inr self"
  using assms
  by (auto simp: send_message_def get_server_wid_def)

theorem send_message_unresolved_noop_witness:
  "get_rootwindow_serverlist example_display = Inr [''editor_A'' \<mapsto> 500, ''editor_B'' \<mapsto> 700]
   \<and> [''editor_A'' \<mapsto> 500, ''editor_B'' \<mapsto> 700] ''editor_C'' = None
   \<and> send_message example_display (VimWindow_do_init ''0'' 4242) ''editor_C'' ''getcwd()'' True
        (Some (client_cb 0)) = Inr (VimWindow_do_init ''0'' 4242)"
proof -
  have a: "[''editor_A'' \<mapsto> 500, ''editor_B'' \<mapsto> 700::int] ''editor_C'' = None" by simp
  then have b: "[''editor_A'' \<mapsto> 500, ''editor_B'' \<mapsto> 700::int] ''editor_C'' = None
      \<or> [''editor_A'' \<mapsto> 500, ''editor_B'' \<mapsto> 700::int] ''editor_C'' = Some 0
      \<or> (\<exists>wid. [''editor_A'' \<mapsto> 500, ''editor_B'' \<mapsto> 700::int] ''editor_C'' = Some wid
               \<and> (get_server_window example_display wid = None
                    \<or> (\<exists>sw. get_server_window example_display wid = Some sw \<and> property_Vim sw = None)))"
    by (rule disjI1)
  show ?thesis
    using a example_registry send_message_unresolved_noop [OF example_registry b]
    by simp
qed

text \<open>
  C7 as stated fails: \<open>get_server_wid\<close> catches KeyError only. With a registry entry
  whose first word is not a hexadecimal number, or an entry of one word, a send to a
  server name that the registry does not hold raises ValueError or IndexError.
\<close>

theorem malformed_registry_send_raises:
  "send_message (example_display\<lparr>VimRegistry := Some (''xyz editor_A'' @ [NUL])\<rparr>)
      (VimWindow_do_init ''0'' 4242) ''editor_C'' ''getcwd()'' True (Some (client_cb 0))
     = Inl ValueError
   \<and> send_message (example_display\<lparr>VimRegistry := Some (''1f4'' @ [NUL])\<rparr>)
      (VimWindow_do_init ''0'' 4242) ''editor_C'' '':w'' False None
     = Inl IndexError"
  by (simp add: send_message_def get_server_wid_def get_rootwindow_serverlist_def
      add_rawserver_def py_words_def is_space_def int16_def hexval_def startswith_def NUL_def)

section \<open>The dispatcher\<close>

lemma cb_reply_async_event:
  assumes "CHR '','' \<notin> set evt"
  shows "cb_reply_async self (evt @ CHR '','' # rest) =
    self\<lparr>events := events self @ [(evt, map Str (py_split CHR '','' rest))]\<rparr>"
proof -
  have t: "takeWhile (\<lambda>c. c \<noteq> CHR '','') (evt @ CHR '','' # rest) = evt"
    using assms by (subst takeWhile_append2) auto
  have d: "dropWhile (\<lambda>c. c \<noteq> CHR '','') (evt @ CHR '','' # rest) = CHR '','' # rest"
    using assms by (subst dropWhile_append2) auto
  have c: "count_list (evt @ CHR '','' # rest) CHR '','' \<noteq> 0"
    by (simp add: count_list_0_iff)
  show ?thesis
    unfolding cb_reply_async_def Let_def t d using c by (simp add: do_evt_def)
qed

lemma cb_reply_async_log:
  assumes "CHR '','' \<notin> set payload"
  shows "cb_reply_async self payload =
    self\<lparr>logged := logged self @ [(''bad async reply'', payload, 10)]\<rparr>"
  using assms by (simp add: cb_reply_async_def count_list_0_iff do_log_def)

lemma cb_reply_notification:
  assumes "parse_message data ''t'' = Some t" "t \<noteq> ''r''"
    and "[f \<leftarrow> py_split NUL data. startswith f ''-n''] = fs @ [''-n '' @ payload]"
  shows "cb_reply dpy self data = Inr (cb_reply_async self payload)"
  using assms(1,2) unfolding cb_reply_def Let_def assms(3) by simp

text \<open>
  C9, as the code has it. Take an inbound frame that has a type tag other than \<open>r\<close>
  and whose last field beginning with \<open>-n\<close> is \<open>-n\<close>, a space and a payload. If
  the payload has a comma, \<open>cb_reply\<close> delivers exactly one event to the application:
  its name is the text before the first comma and its arguments are the
  comma-separated pieces of the text after it; nothing is logged. If the payload has no
  comma, no event is delivered and exactly one diagnostic is logged.
\<close>

theorem notification_dispatch:
  assumes "parse_message data ''t'' = Some t" "t \<noteq> ''r''"
    and "[f \<leftarrow> py_split NUL data. startswith f ''-n''] = fs @ [''-n '' @ payload]"
  shows "(payload = evt @ CHR '','' # rest \<and> CHR '','' \<notin> set evt \<longrightarrow>
            cb_reply dpy self data =
              Inr (self\<lparr>events := events self @ [(evt, map Str (py_split CHR '','' rest))]\<rparr>))
       \<and> (CHR '','' \<notin> set payload \<longrightarrow>
            cb_reply dpy self data =
              Inr (self\<lparr>logged := logged self @ [(''bad async reply'', payload, 10)]\<rparr>))"
  unfolding cb_reply_notification [OF assms]
  by (auto simp: cb_reply_async_event cb_reply_async_log)

lemma parse_bufferchange:
  "parse_message ([NUL] @ ''n'' @ [NUL] @ ''-n bufferchange,3,/tmp/foo.txt'' @ [NUL]) ''t'' = Some ''n''"
  by (simp add: parse_message_def parse_field_def startswith_def NUL_def)

lemma fields_bufferchange:
  "[f \<leftarrow> py_split NUL ([NUL] @ ''n'' @ [NUL] @ ''-n bufferchange,3,/tmp/foo.txt'' @ [NUL]). startswith f ''-n'']
    = [] @ [''-n '' @ ''bufferchange,3,/tmp/foo.txt'']"
  by (simp add: startswith_def NUL_def)

lemma parse_ready:
  "parse_message ([NUL] @ ''n'' @ [NUL] @ ''-n ready'' @ [NUL]) ''t'' = Some ''n''"
  by (simp add: parse_message_def parse_field_def startswith_def NUL_def)

lemma fields_ready:
  "[f \<leftarrow> py_split NUL ([NUL] @ ''n'' @ [NUL] @ ''-n ready'' @ [NUL]). startswith f ''-n'']
    = [] @ [''-n '' @ ''ready'']"
  by (simp add: startswith_def NUL_def)

theorem notification_dispatch_witness:
  "parse_message ([NUL] @ ''n'' @ [NUL] @ ''-n bufferchange,3,/tmp/foo.txt'' @ [NUL]) ''t'' = Some ''n''
   \<and> ''n'' \<noteq> ''r''
   \<and> [f \<leftarrow> py_split NUL ([NUL] @ ''n'' @ [NUL] @ ''-n bufferchange,3,/tmp/foo.txt'' @ [NUL]).
         startswith f ''-n''] = [] @ [''-n '' @ ''bufferchange,3,/tmp/foo.txt'']
   \<and> ''bufferchange,3,/tmp/foo.txt'' = ''bufferchange'' @ CHR '','' # ''3,/tmp/foo.txt''
   \<and> CHR '','' \<notin> set ''bufferchange''
   \<and> cb_reply example_display (VimWindow_do_init ''0'' 4242)
        ([NUL] @ ''n'' @ [NUL] @ ''-n bufferchange,3,/tmp/foo.txt'' @ [NUL]) =
      Inr ((VimWindow_do_init ''0'' 4242)
             \<lparr>events := [(''bufferchange'', [Str ''3'', Str ''/tmp/foo.txt''])]\<rparr>)
   \<and> parse_message ([NUL] @ ''n'' @ [NUL] @ ''-n ready'' @ [NUL]) ''t'' = Some ''n''
   \<and> [f \<leftarrow> py_split NUL ([NUL] @ ''n'' @ [NUL] @ ''-n ready'' @ [NUL]).
         startswith f ''-n''] = [] @ [''-n '' @ ''ready'']
   \<and> CHR '','' \<notin> set ''ready''
   \<and> cb_reply example_display (VimWindow_do_init ''0'' 4242)
        ([NUL] @ ''n'' @ [NUL] @ ''-n ready'' @ [NUL]) =
      Inr ((VimWindow_do_init ''0'' 4242)\<lparr>logged := [(''bad async reply'', ''ready'', 10)]\<rparr>)"
proof -
  have n: "''n'' \<noteq> ''r''" by simp
  have e: "events (VimWindow_do_init ''0'' 4242) = []" "logged (VimWindow_do_init ''0'' 4242) = []"
    by (simp_all add: VimWindow_do_init_def)
  have d: "''bufferchange,3,/tmp/foo.txt'' = ''bufferchange'' @ CHR '','' # ''3,/tmp/foo.txt''"
    "CHR '','' \<notin> set ''bufferchange''" "CHR '','' \<notin> set ''ready''"
    by simp_all
  have s: "py_split CHR '','' ''3,/tmp/foo.txt'' = [''3'', ''/tmp/foo.txt'']"
    by simp
  have 1: "cb_reply example_display (VimWindow_do_init ''0'' 4242)
        ([NUL] @ ''n'' @ [NUL] @ ''-n bufferchange,3,/tmp/foo.txt'' @ [NUL]) =
      Inr ((VimWindow_do_init ''0'' 4242)
             \<lparr>events := [(''bufferchange'', [Str ''3'', Str ''/tmp/foo.txt''])]\<rparr>)"
  proof -
    have c: "''bufferchange,3,/tmp/foo.txt'' = ''bufferchange'' @ CHR '','' # ''3,/tmp/foo.txt''
        \<and> CHR '','' \<notin> set ''bufferchange''"
      by simp
    from notification_dispatch [OF parse_bufferchange n fields_bufferchange,
        where evt = "''bufferchange''" and rest = "''3,/tmp/foo.txt''"
          and dpy = example_display and self = "VimWindow_do_init ''0'' 4242",
        THEN conjunct1, THEN mp, OF c]
    show ?thesis by (simp add: e s)
  qed
  have 2: "cb_reply example_display (VimWindow_do_init ''0'' 4242)
        ([NUL] @ ''n'' @ [NUL] @ ''-n ready'' @ [NUL]) =
      Inr ((VimWindow_do_init ''0'' 4242)\<lparr>logged := [(''bad async reply'', ''ready'', 10)]\<rparr>)"
    using notification_dispatch [OF parse_ready n fields_ready,
        where dpy = example_display and self = "VimWindow_do_init ''0'' 4242",
        THEN conjunct2, THEN mp, OF d(3)]
    by (simp add: e)
  show ?thesis
    using parse_bufferchange n fields_bufferchange d 1 parse_ready fields_ready 2
    by blast
qed


text \<open>
  C9 as stated fails. A frame without type tag raises KeyError before its \<open>-n\<close>
  field is looked at, with a comma in the payload (no event is delivered) and without
  (no diagnostic is logged). And the payload is cut out of the last field that begins
  with the two characters \<open>-n\<close>, whatever its key: in a frame with the fields
  \<open>-n first,1\<close> and \<open>-name second,2\<close> the event delivered is \<open>me second\<close> with
  the argument \<open>2\<close>.
\<close>

theorem untagged_notification_raises:
  "cb_reply example_display (VimWindow_do_init ''0'' 4242)
      ([NUL] @ ''-n bufferchange,3,/tmp/foo.txt'' @ [NUL]) = Inl KeyError
   \<and> cb_reply example_display (VimWindow_do_init ''0'' 4242)
      ([NUL] @ ''-n ready'' @ [NUL]) = Inl KeyError
   \<and> parse_message ([NUL] @ ''n'' @ [NUL] @ ''-n first,1'' @ [NUL] @ ''-name second,2'' @ [NUL]) ''n''
      = Some ''first,1''
   \<and> cb_reply example_display (VimWindow_do_init ''0'' 4242)
      ([NUL] @ ''n'' @ [NUL] @ ''-n first,1'' @ [NUL] @ ''-name second,2'' @ [NUL]) =
      Inr ((VimWindow_do_init ''0'' 4242)\<lparr>events := [(''me second'', [Str ''2''])]\<rparr>)"
  by (simp add: cb_reply_def cb_reply_async_def do_evt_def parse_message_def parse_field_def
      startswith_def NUL_def VimWindow_do_init_def)

text \<open>
  C4, as the code has it. For a frame with type tag \<open>r\<close> and a serial attribute,
  \<open>cb_reply\<close> looks the serial up in the table of callbacks. Without an entry the
  reply is a no-op. With an entry and a result attribute the stored callback is called
  once with the result, and the entry stays in the table: for an application callback
  the only change is the recorded call, and a second reply with the same serial calls
  it once more.
\<close>

theorem cb_reply_resolves:
  assumes "parse_message data ''t'' = Some ''r''" "parse_message data ''s'' = Some s"
  shows "(callbacks self s = None \<longrightarrow> cb_reply dpy self data = Inr self)
       \<and> (callbacks self s = Some cb \<and> parse_message data ''r'' = Some r \<longrightarrow>
            cb_reply dpy self data = call dpy self cb r)
       \<and> (callbacks self s = Some (client_cb i) \<and> parse_message data ''r'' = Some r \<longrightarrow>
            cb_reply dpy self data = Inr (self\<lparr>called := called self @ [(i, r)]\<rparr>)
            \<and> cb_reply dpy (self\<lparr>called := called self @ [(i, r)]\<rparr>) data =
                Inr (self\<lparr>called := called self @ [(i, r), (i, r)]\<rparr>))"
  using assms by (simp add: cb_reply_def call_def)

lemma parse_reply:
  "parse_message ([NUL] @ ''r'' @ [NUL] @ ''-r /home/u'' @ [NUL] @ ''-s 2'' @ [NUL]) =
     [''t'' \<mapsto> ''r'', ''r'' \<mapsto> ''/home/u'', ''s'' \<mapsto> ''2'']"
  by (simp add: parse_message_def parse_field_def startswith_def NUL_def)

theorem cb_reply_resolves_witness:
  "parse_message ([NUL] @ ''r'' @ [NUL] @ ''-r /home/u'' @ [NUL] @ ''-s 2'' @ [NUL]) ''t'' = Some ''r''
   \<and> parse_message ([NUL] @ ''r'' @ [NUL] @ ''-r /home/u'' @ [NUL] @ ''-s 2'' @ [NUL]) ''s'' = Some ''2''
   \<and> parse_message ([NUL] @ ''r'' @ [NUL] @ ''-r /home/u'' @ [NUL] @ ''-s 2'' @ [NUL]) ''r'' = Some ''/home/u''
   \<and> callbacks (VimWindow_do_init ''0'' 4242) ''2'' = None
   \<and> cb_reply example_display (VimWindow_do_init ''0'' 4242)
        ([NUL] @ ''r'' @ [NUL] @ ''-r /home/u'' @ [NUL] @ ''-s 2'' @ [NUL]) =
       Inr (VimWindow_do_init ''0'' 4242)
   \<and> callbacks ((VimWindow_do_init ''0'' 4242)\<lparr>callbacks := [''2'' \<mapsto> client_cb 7]\<rparr>) ''2''
        = Some (client_cb 7)
   \<and> cb_reply example_display
        ((VimWindow_do_init ''0'' 4242)\<lparr>callbacks := [''2'' \<mapsto> client_cb 7]\<rparr>)
        ([NUL] @ ''r'' @ [NUL] @ ''-r /home/u'' @ [NUL] @ ''-s 2'' @ [NUL]) =
       call example_display
        ((VimWindow_do_init ''0'' 4242)\<lparr>callbacks := [''2'' \<mapsto> client_cb 7]\<rparr>)
        (client_cb 7) ''/home/u''
   \<and> cb_reply example_display
        ((VimWindow_do_init ''0'' 4242)\<lparr>callbacks := [''2'' \<mapsto> client_cb 7]\<rparr>)
        ([NUL] @ ''r'' @ [NUL] @ ''-r /home/u'' @ [NUL] @ ''-s 2'' @ [NUL]) =
       Inr ((VimWindow_do_init ''0'' 4242)
              \<lparr>callbacks := [''2'' \<mapsto> client_cb 7], called := [(7, ''/home/u'')]\<rparr>)"
proof -
  have t: "parse_message ([NUL] @ ''r'' @ [NUL] @ ''-r /home/u'' @ [NUL] @ ''-s 2'' @ [NUL]) ''t'' = Some ''r''"
    and s: "parse_message ([NUL] @ ''r'' @ [NUL] @ ''-r /home/u'' @ [NUL] @ ''-s 2'' @ [NUL]) ''s'' = Some ''2''"
    and r: "parse_message ([NUL] @ ''r'' @ [NUL] @ ''-r /home/u'' @ [NUL] @ ''-s 2'' @ [NUL]) ''r'' = Some ''/home/u''"
    unfolding parse_reply by simp_all
  have c: "callbacks (VimWindow_do_init ''0'' 4242) ''2'' = None"
    by (simp add: VimWindow_do_init_def)
  have c': "callbacks ((VimWindow_do_init ''0'' 4242)\<lparr>callbacks := [''2'' \<mapsto> client_cb 7]\<rparr>) ''2''
        = Some (client_cb 7)"
    by simp
  have e: "called (VimWindow_do_init ''0'' 4242) = []"
    by (simp add: VimWindow_do_init_def)
  note T = cb_reply_resolves [OF t s, where dpy = example_display]
  have 1: "cb_reply example_display (VimWindow_do_init ''0'' 4242)
        ([NUL] @ ''r'' @ [NUL] @ ''-r /home/u'' @ [NUL] @ ''-s 2'' @ [NUL]) =
       Inr (VimWindow_do_init ''0'' 4242)"
    using T [where self = "VimWindow_do_init ''0'' 4242", THEN conjunct1, THEN mp, OF c] .
  have 2: "cb_reply example_display
        ((VimWindow_do_init ''0'' 4242)\<lparr>callbacks := [''2'' \<mapsto> client_cb 7]\<rparr>)
        ([NUL] @ ''r'' @ [NUL] @ ''-r /home/u'' @ [NUL] @ ''-s 2'' @ [NUL]) =
       call example_display
        ((VimWindow_do_init ''0'' 4242)\<lparr>callbacks := [''2'' \<mapsto> client_cb 7]\<rparr>)
        (client_cb 7) ''/home/u''"
    using T [where self = "(VimWindow_do_init ''0'' 4242)\<lparr>callbacks := [''2'' \<mapsto> client_cb 7]\<rparr>"
        and cb = "client_cb 7" and r = "''/home/u''",
        THEN conjunct2, THEN conjunct1, THEN mp, OF conjI, OF c' r] .
  have 3: "cb_reply example_display
        ((VimWindow_do_init ''0'' 4242)\<lparr>callbacks := [''2'' \<mapsto> client_cb 7]\<rparr>)
        ([NUL] @ ''r'' @ [NUL] @ ''-r /home/u'' @ [NUL] @ ''-s 2'' @ [NUL]) =
       Inr ((VimWindow_do_init ''0'' 4242)
              \<lparr>callbacks := [''2'' \<mapsto> client_cb 7], called := [(7, ''/home/u'')]\<rparr>)"
    using T [where self = "(VimWindow_do_init ''0'' 4242)\<lparr>callbacks := [''2'' \<mapsto> client_cb 7]\<rparr>"
        and i = 7 and r = "''/home/u''",
        THEN conjunct2, THEN conjunct2, THEN mp, OF conjI, OF c' r, THEN conjunct1]
    by (simp add: e)
  show ?thesis
    using t s r c c' 1 2 3 by blast
qed

text \<open>
  C4 as stated fails: with the application callback 7 pending under the serial 2, the
  reply is processed twice and the callback is called twice; the entry is never removed.
\<close>

theorem second_reply_calls_again:
  "cb_reply example_display
     ((VimWindow_do_init ''0'' 4242)\<lparr>serial := 2, callbacks := [''2'' \<mapsto> client_cb 7]\<rparr>)
     ([NUL] @ ''r'' @ [NUL] @ ''-r /home/u'' @ [NUL] @ ''-s 2'' @ [NUL]) =
   Inr ((VimWindow_do_init ''0'' 4242)
         \<lparr>serial := 2, callbacks := [''2'' \<mapsto> client_cb 7], called := [(7, ''/home/u'')]\<rparr>)
   \<and> cb_reply example_display
     ((VimWindow_do_init ''0'' 4242)
         \<lparr>serial := 2, callbacks := [''2'' \<mapsto> client_cb 7], called := [(7, ''/home/u'')]\<rparr>)
     ([NUL] @ ''r'' @ [NUL] @ ''-r /home/u'' @ [NUL] @ ''-s 2'' @ [NUL]) =
   Inr ((VimWindow_do_init ''0'' 4242)
         \<lparr>serial := 2, callbacks := [''2'' \<mapsto> client_cb 7],
          called := [(7, ''/home/u''), (7, ''/home/u'')]\<rparr>)"
  unfolding cb_reply_def parse_reply by (simp add: call_def VimWindow_do_init_def)

text \<open>
  C6, as the code has it. \<open>cb_reply\<close> returns normally for every frame that has a type
  tag and is either a reply with a serial attribute whose serial is not pending, or a
  reply with a serial attribute whose serial is pending, with a result attribute and a
  callback that returns normally, or a frame of another type with a field that begins
  with \<open>-n\<close>. A reply whose serial is not pending leaves the state as it was.
\<close>

theorem cb_reply_returns:
  assumes "parse_message data ''t'' = Some t"
    and "t = ''r'' \<longrightarrow>
           (\<exists>s. parse_message data ''s'' = Some s
              \<and> (callbacks self s = None
                   \<or> (\<exists>cb r self'. callbacks self s = Some cb \<and> parse_message data ''r'' = Some r
                         \<and> call dpy self cb r = Inr self')))"
    and "t \<noteq> ''r'' \<longrightarrow> (\<exists>f \<in> set (py_split NUL data). startswith f ''-n'')"
  shows "(\<exists>self'. cb_reply dpy self data = Inr self')
       \<and> (t = ''r'' \<and> callbacks self (the (parse_message data ''s'')) = None \<longrightarrow>
            cb_reply dpy self data = Inr self)"
proof (cases "t = ''r''")
  case True
  with assms(2) obtain s where s: "parse_message data ''s'' = Some s"
    "callbacks self s = None
       \<or> (\<exists>cb r self'. callbacks self s = Some cb \<and> parse_message data ''r'' = Some r
             \<and> call dpy self cb r = Inr self')"
    by blast
  from s(2) show ?thesis
    using assms(1) True s(1) by (auto simp: cb_reply_def)
next
  case False
  with assms(3) obtain f where "f \<in> set (py_split NUL data)" "startswith f ''-n''"
    by blast
  then have "f \<in> set [t \<leftarrow> py_split NUL data. startswith t ''-n'']" by simp
  then have "rev [t \<leftarrow> py_split NUL data. startswith t ''-n''] \<noteq> []"
    by (metis empty_iff list.set(1) rev_is_Nil_conv)
  then obtain x xs where "rev [t \<leftarrow> py_split NUL data. startswith t ''-n''] = x # xs"
    by (cases "rev [t \<leftarrow> py_split NUL data. startswith t ''-n'']") auto
  then show ?thesis
    using assms(1) False by (simp add: cb_reply_def)
qed

text \<open>
  C6 as stated fails: a frame without type tag, a reply without serial attribute and a
  reply to a pending serial without result attribute raise KeyError, and a frame of
  another type without a field beginning with \<open>-n\<close> raises IndexError;
  \<open>cb_notify\<close> passes the exception on.
\<close>

theorem cb_reply_raises:
  "cb_reply example_display (VimWindow_do_init ''0'' 4242)
      ([NUL] @ ''-n bufferchange,3,/tmp/foo.txt'' @ [NUL]) = Inl KeyError
   \<and> cb_reply example_display (VimWindow_do_init ''0'' 4242)
      ([NUL] @ ''r'' @ [NUL] @ ''-r /home/u'' @ [NUL]) = Inl KeyError
   \<and> cb_reply example_display
      ((VimWindow_do_init ''0'' 4242)\<lparr>serial := 2, callbacks := [''2'' \<mapsto> client_cb 7]\<rparr>)
      ([NUL] @ ''r'' @ [NUL] @ ''-s 2'' @ [NUL]) = Inl KeyError
   \<and> cb_reply example_display (VimWindow_do_init ''0'' 4242)
      ([NUL] @ ''n'' @ [NUL] @ ''-w 1f4'' @ [NUL]) = Inl IndexError
   \<and> cb_notify example_display (VimWindow_do_init ''0'' 4242) (Some ''Comm'')
      (Some ([NUL] @ ''-n bufferchange,3,/tmp/foo.txt'' @ [NUL])) = Inl KeyError"
  by (simp add: cb_notify_def cb_reply_def parse_message_def parse_field_def startswith_def NUL_def
      VimWindow_do_init_def)

theorem cb_reply_returns_witness:
  "parse_message ([NUL] @ ''r'' @ [NUL] @ ''-r /home/u'' @ [NUL] @ ''-s 2'' @ [NUL]) ''t'' = Some ''r''
   \<and> parse_message ([NUL] @ ''r'' @ [NUL] @ ''-r /home/u'' @ [NUL] @ ''-s 2'' @ [NUL]) ''s'' = Some ''2''
   \<and> callbacks (VimWindow_do_init ''0'' 4242) ''2'' = None
   \<and> cb_reply example_display (VimWindow_do_init ''0'' 4242)
        ([NUL] @ ''r'' @ [NUL] @ ''-r /home/u'' @ [NUL] @ ''-s 2'' @ [NUL]) =
       Inr (VimWindow_do_init ''0'' 4242)
   \<and> parse_message ([NUL] @ ''n'' @ [NUL] @ ''-n ready'' @ [NUL]) ''t'' = Some ''n''
   \<and> ''n'' \<noteq> ''r''
   \<and> (\<exists>f \<in> set (py_split NUL ([NUL] @ ''n'' @ [NUL] @ ''-n ready'' @ [NUL])). startswith f ''-n'')
   \<and> (\<exists>self'. cb_reply example_display (VimWindow_do_init ''0'' 4242)
                 ([NUL] @ ''n'' @ [NUL] @ ''-n ready'' @ [NUL]) = Inr self')"
proof -
  have t: "parse_message ([NUL] @ ''r'' @ [NUL] @ ''-r /home/u'' @ [NUL] @ ''-s 2'' @ [NUL]) ''t'' = Some ''r''"
    and s: "parse_message ([NUL] @ ''r'' @ [NUL] @ ''-r /home/u'' @ [NUL] @ ''-s 2'' @ [NUL]) ''s'' = Some ''2''"
    unfolding parse_reply by simp_all
  have c: "callbacks (VimWindow_do_init ''0'' 4242) ''2'' = None"
    by (simp add: VimWindow_do_init_def)
  have a2: "''r'' = ''r'' \<longrightarrow>
           (\<exists>s. parse_message ([NUL] @ ''r'' @ [NUL] @ ''-r /home/u'' @ [NUL] @ ''-s 2'' @ [NUL]) ''s'' = Some s
              \<and> (callbacks (VimWindow_do_init ''0'' 4242) s = None
                   \<or> (\<exists>cb r self'. callbacks (VimWindow_do_init ''0'' 4242) s = Some cb
                         \<and> parse_message ([NUL] @ ''r'' @ [NUL] @ ''-r /home/u'' @ [NUL] @ ''-s 2'' @ [NUL]) ''r'' = Some r
                         \<and> call example_display (VimWindow_do_init ''0'' 4242) cb r = Inr self')))"
    using s c by blast
  have a3: "''r'' \<noteq> ''r'' \<longrightarrow>
      (\<exists>f \<in> set (py_split NUL ([NUL] @ ''r'' @ [NUL] @ ''-r /home/u'' @ [NUL] @ ''-s 2'' @ [NUL])).
          startswith f ''-n'')"
    by simp
  have c2: "callbacks (VimWindow_do_init ''0'' 4242)
      (the (parse_message ([NUL] @ ''r'' @ [NUL] @ ''-r /home/u'' @ [NUL] @ ''-s 2'' @ [NUL]) ''s'')) = None"
    unfolding s using c by simp
  have 1: "cb_reply example_display (VimWindow_do_init ''0'' 4242)
        ([NUL] @ ''r'' @ [NUL] @ ''-r /home/u'' @ [NUL] @ ''-s 2'' @ [NUL]) =
       Inr (VimWindow_do_init ''0'' 4242)"
    using cb_reply_returns [OF t a2 a3, THEN conjunct2, THEN mp, OF conjI, OF refl c2] .
  have n: "''n'' \<noteq> ''r''" by simp
  have f: "\<exists>f \<in> set (py_split NUL ([NUL] @ ''n'' @ [NUL] @ ''-n ready'' @ [NUL])). startswith f ''-n''"
    by (simp add: startswith_def NUL_def)
  have b2: "''n'' = ''r'' \<longrightarrow>
           (\<exists>s. parse_message ([NUL] @ ''n'' @ [NUL] @ ''-n ready'' @ [NUL]) ''s'' = Some s
              \<and> (callbacks (VimWindow_do_init ''0'' 4242) s = None
                   \<or> (\<exists>cb r self'. callbacks (VimWindow_do_init ''0'' 4242) s = Some cb
                         \<and> parse_message ([NUL] @ ''n'' @ [NUL] @ ''-n ready'' @ [NUL]) ''r'' = Some r
                         \<and> call example_display (VimWindow_do_init ''0'' 4242) cb r = Inr self')))"
    by simp
  have b3: "''n'' \<noteq> ''r'' \<longrightarrow>
      (\<exists>f \<in> set (py_split NUL ([NUL] @ ''n'' @ [NUL] @ ''-n ready'' @ [NUL])). startswith f ''-n'')"
    using f by blast
  have 2: "\<exists>self'. cb_reply example_display (VimWindow_do_init ''0'' 4242)
                 ([NUL] @ ''n'' @ [NUL] @ ''-n ready'' @ [NUL]) = Inr self'"
    using cb_reply_returns [OF parse_ready b2 b3, THEN conjunct1] .
  show ?thesis
    using t s c 1 parse_ready n f 2 by blast
qed

section \<open>Discovery\<close>

lemma send_message_keeps:
  assumes "send_message dpy self servername message asexpr callback = Inr self'"
  shows "oldservers self' = oldservers self \<and> events self' = events self
       \<and> server_cwds self' = server_cwds self"
  using assms
  by (auto simp: send_message_def generate_message_def Let_def
      split: sum.splits option.splits if_splits)

lemma fetch_cwds_keeps:
  assumes "fetch_cwds dpy self serverlist = Inr self'"
  shows "oldservers self' = oldservers self \<and> events self' = events self"
  using assms
proof (induction serverlist arbitrary: self)
  case Nil
  then show ?case by simp
next
  case (Cons server rest)
  show ?case
  proof (cases "server_cwds self server = None")
    case True
    with Cons.prems obtain self1 where 1: "fetch_cwd dpy self server = Inr self1"
      and 2: "fetch_cwds dpy self1 rest = Inr self'"
      by (auto split: sum.splits)
    from 1 have "oldservers self1 = oldservers self \<and> events self1 = events self"
      unfolding fetch_cwd_def send_expr_def using send_message_keeps by blast
    with Cons.IH [OF 2] show ?thesis by simp
  next
    case False
    with Cons.prems have "fetch_cwds dpy self rest = Inr self'" by simp
    from Cons.IH [OF this] show ?thesis .
  qed
qed

lemma gotservers_events:
  assumes "gotservers dpy self serverlist = Inr self'"
  shows "events self' = events self @
           (if Some serverlist \<noteq> oldservers self then [(''serverlist'', [StrList serverlist])] else [])
       \<and> oldservers self' = Some serverlist"
proof -
  from assms obtain self1 where 1: "fetch_cwds dpy self serverlist = Inr self1"
    by (auto simp: gotservers_def split: sum.splits)
  from fetch_cwds_keeps [OF 1] assms 1 show ?thesis
    by (auto simp: gotservers_def feed_serverlist_def do_evt_def split: if_splits)
qed

text \<open>
  C5, as the code has it. \<open>gotservers\<close> compares the new list with the stored one as
  lists. For two consecutive discovery cycles that complete and whose filtered server
  lists are the same sequence of names, the \<open>serverlist\<close> event is delivered at most
  once: in the first cycle exactly when the list differs from the stored one, and not in
  the second.
\<close>

theorem same_list_feeds_once:
  assumes "[svr \<leftarrow> splitlines reply1. \<not> startswith svr ''__''] =
           [svr \<leftarrow> splitlines reply2. \<not> startswith svr ''__'']"
    and "call dpy1 self hidden_serverlist_cb reply1 = Inr self1"
    and "call dpy2 self1 hidden_serverlist_cb reply2 = Inr self2"
  shows "events self1 = events self @
           (if Some [svr \<leftarrow> splitlines reply1. \<not> startswith svr ''__''] \<noteq> oldservers self
            then [(''serverlist'', [StrList [svr \<leftarrow> splitlines reply1. \<not> startswith svr ''__'']])]
            else [])
       \<and> events self2 = events self1"
proof -
  from assms(2) have 1:
    "gotservers dpy1 self [svr \<leftarrow> splitlines reply1. \<not> startswith svr ''__''] = Inr self1"
    by (simp add: call_def)
  from assms(3) have 2:
    "gotservers dpy2 self1 [svr \<leftarrow> splitlines reply1. \<not> startswith svr ''__''] = Inr self2"
    by (simp add: call_def assms(1))
  from gotservers_events [OF 1] gotservers_events [OF 2] show ?thesis by simp
qed

lemma gotservers_unregistered:
  assumes "VimRegistry dpy = None"
  shows "gotservers dpy self serverlist =
     (if Some serverlist \<noteq> oldservers self
      then Inr (self\<lparr>oldservers := Some serverlist,
                     events := events self @ [(''serverlist'', [StrList serverlist])]\<rparr>)
      else Inr self)"
proof -
  have w: "send_message dpy s server message asexpr callback = Inr s" for s server message asexpr callback
    using assms by (simp add: send_message_def get_server_wid_def get_rootwindow_serverlist_def)
  have "fetch_cwds dpy s serverlist = Inr s" for s
    by (induction serverlist arbitrary: s) (simp_all add: fetch_cwd_def send_expr_def w)
  then show ?thesis
    by (simp add: gotservers_def feed_serverlist_def do_evt_def)
qed

lemma example_replies:
  "[svr \<leftarrow> splitlines (''__0_PIDA_HIDDEN'' @ [CHR 0x0A] @ ''editor_A'' @ [CHR 0x0A]).
       \<not> startswith svr ''__''] = [''editor_A'']"
  "[svr \<leftarrow> splitlines (''editor_A'' @ [CHR 0x0A]). \<not> startswith svr ''__''] = [''editor_A'']"
  "[svr \<leftarrow> splitlines (''editor_A'' @ [CHR 0x0A] @ ''editor_B'' @ [CHR 0x0A]).
       \<not> startswith svr ''__''] = [''editor_A'', ''editor_B'']"
  "[svr \<leftarrow> splitlines (''editor_B'' @ [CHR 0x0A] @ ''editor_A'' @ [CHR 0x0A]).
       \<not> startswith svr ''__''] = [''editor_B'', ''editor_A'']"
  by (simp_all add: splitlines_def startswith_def)

theorem same_list_feeds_once_witness:
  "[svr \<leftarrow> splitlines (''__0_PIDA_HIDDEN'' @ [CHR 0x0A] @ ''editor_A'' @ [CHR 0x0A]).
       \<not> startswith svr ''__''] =
   [svr \<leftarrow> splitlines (''editor_A'' @ [CHR 0x0A]). \<not> startswith svr ''__'']
   \<and> call (example_display\<lparr>VimRegistry := None\<rparr>) (VimWindow_do_init ''0'' 4242)
        hidden_serverlist_cb (''__0_PIDA_HIDDEN'' @ [CHR 0x0A] @ ''editor_A'' @ [CHR 0x0A])
     = Inr ((VimWindow_do_init ''0'' 4242)
             \<lparr>oldservers := Some [''editor_A''],
              events := [(''serverlist'', [StrList [''editor_A'']])]\<rparr>)
   \<and> call (example_display\<lparr>VimRegistry := None\<rparr>)
        ((VimWindow_do_init ''0'' 4242)
             \<lparr>oldservers := Some [''editor_A''],
              events := [(''serverlist'', [StrList [''editor_A'']])]\<rparr>)
        hidden_serverlist_cb (''editor_A'' @ [CHR 0x0A])
     = Inr ((VimWindow_do_init ''0'' 4242)
             \<lparr>oldservers := Some [''editor_A''],
              events := [(''serverlist'', [StrList [''editor_A'']])]\<rparr>)
   \<and> events ((VimWindow_do_init ''0'' 4242)
             \<lparr>oldservers := Some [''editor_A''],
              events := [(''serverlist'', [StrList [''editor_A'']])]\<rparr>) =
       events (VimWindow_do_init ''0'' 4242) @
           (if Some [svr \<leftarrow> splitlines (''__0_PIDA_HIDDEN'' @ [CHR 0x0A] @ ''editor_A'' @ [CHR 0x0A]).
                       \<not> startswith svr ''__''] \<noteq> oldservers (VimWindow_do_init ''0'' 4242)
            then [(''serverlist'',
                   [StrList [svr \<leftarrow> splitlines (''__0_PIDA_HIDDEN'' @ [CHR 0x0A] @ ''editor_A'' @ [CHR 0x0A]).
                       \<not> startswith svr ''__'']])]
            else [])"
proof -
  have r: "VimRegistry (example_display\<lparr>VimRegistry := None\<rparr>) = None" by simp
  have i: "oldservers (VimWindow_do_init ''0'' 4242) = None" "events (VimWindow_do_init ''0'' 4242) = []"
    by (simp_all add: VimWindow_do_init_def)
  have 0: "[svr \<leftarrow> splitlines (''__0_PIDA_HIDDEN'' @ [CHR 0x0A] @ ''editor_A'' @ [CHR 0x0A]).
       \<not> startswith svr ''__''] =
   [svr \<leftarrow> splitlines (''editor_A'' @ [CHR 0x0A]). \<not> startswith svr ''__'']"
    unfolding example_replies ..
  have 1: "call (example_display\<lparr>VimRegistry := None\<rparr>) (VimWindow_do_init ''0'' 4242)
        hidden_serverlist_cb (''__0_PIDA_HIDDEN'' @ [CHR 0x0A] @ ''editor_A'' @ [CHR 0x0A])
     = Inr ((VimWindow_do_init ''0'' 4242)
             \<lparr>oldservers := Some [''editor_A''],
              events := [(''serverlist'', [StrList [''editor_A'']])]\<rparr>)"
    unfolding call_def callback.case example_replies
    by (simp add: gotservers_unregistered [OF r] i)
  have 2: "call (example_display\<lparr>VimRegistry := None\<rparr>)
        ((VimWindow_do_init ''0'' 4242)
             \<lparr>oldservers := Some [''editor_A''],
              events := [(''serverlist'', [StrList [''editor_A'']])]\<rparr>)
        hidden_serverlist_cb (''editor_A'' @ [CHR 0x0A])
     = Inr ((VimWindow_do_init ''0'' 4242)
             \<lparr>oldservers := Some [''editor_A''],
              events := [(''serverlist'', [StrList [''editor_A'']])]\<rparr>)"
    unfolding call_def callback.case example_replies
    by (simp add: gotservers_unregistered [OF r])
  from same_list_feeds_once [OF 0 1 2] 0 1 2 show ?thesis by blast
qed

text \<open>
  C5 as stated fails: two cycles that report the same two names in a different order
  deliver the \<open>serverlist\<close> event twice.
\<close>

theorem reordered_list_feeds_twice:
  "call (example_display\<lparr>VimRegistry := None\<rparr>) (VimWindow_do_init ''0'' 4242)
      hidden_serverlist_cb (''editor_A'' @ [CHR 0x0A] @ ''editor_B'' @ [CHR 0x0A])
     = Inr ((VimWindow_do_init ''0'' 4242)
             \<lparr>oldservers := Some [''editor_A'', ''editor_B''],
              events := [(''serverlist'', [StrList [''editor_A'', ''editor_B'']])]\<rparr>)
   \<and> call (example_display\<lparr>VimRegistry := None\<rparr>)
        ((VimWindow_do_init ''0'' 4242)
             \<lparr>oldservers := Some [''editor_A'', ''editor_B''],
              events := [(''serverlist'', [StrList [''editor_A'', ''editor_B'']])]\<rparr>)
        hidden_serverlist_cb (''editor_B'' @ [CHR 0x0A] @ ''editor_A'' @ [CHR 0x0A])
     = Inr ((VimWindow_do_init ''0'' 4242)
             \<lparr>oldservers := Some [''editor_B'', ''editor_A''],
              events := [(''serverlist'', [StrList [''editor_A'', ''editor_B'']]),
                         (''serverlist'', [StrList [''editor_B'', ''editor_A'']])]\<rparr>)
   \<and> set [''editor_A'', ''editor_B''] = set [''editor_B'', ''editor_A'']"
proof -
  have r: "VimRegistry (example_display\<lparr>VimRegistry := None\<rparr>) = None" by simp
  have i: "oldservers (VimWindow_do_init ''0'' 4242) = None" "events (VimWindow_do_init ''0'' 4242) = []"
    by (simp_all add: VimWindow_do_init_def)
  show ?thesis
    unfolding call_def callback.case example_replies
    by (simp add: gotservers_unregistered [OF r] i insert_commute)
qed

lemma get_hidden_serverlist_keeps:
  assumes "get_hidden_serverlist dpy waitpid forked self = Inr self'"
  shows "oldservers self' = oldservers self \<and> events self' = events self"
proof (cases "fst (is_alive waitpid (vim_hidden self))")
  case True
  with assms have "send_message dpy (self\<lparr>vim_hidden := snd (is_alive waitpid (vim_hidden self))\<rparr>)
      (name (snd (is_alive waitpid (vim_hidden self)))) ''serverlist()'' True
      (Some hidden_serverlist_cb) = Inr self'"
    by (simp add: get_hidden_serverlist_def send_expr_def split_beta)
  from send_message_keeps [OF this] show ?thesis by simp
next
  case False
  with assms show ?thesis
    by (auto simp: get_hidden_serverlist_def split_beta)
qed

text \<open>
  C10. \<open>do_init\<close> sets \<open>oldservers\<close> to \<open>None\<close>, which no list equals. As long as
  \<open>oldservers\<close> is \<open>None\<close>, every discovery cycle that completes delivers the
  \<open>serverlist\<close> event with the list it found, the empty list included, and stores
  that list.
\<close>

theorem first_cycle_feeds:
  assumes "oldservers self = None" "gotservers dpy self serverlist = Inr self'"
  shows "events self' = events self @ [(''serverlist'', [StrList serverlist])]
       \<and> oldservers self' = Some serverlist
       \<and> oldservers (VimWindow_do_init now forked) = None"
  using gotservers_events [OF assms(2)] assms(1) by (simp add: VimWindow_do_init_def)

theorem first_cycle_feeds_witness:
  "oldservers (VimWindow_do_init ''0'' 4242) = None
   \<and> gotservers example_display (VimWindow_do_init ''0'' 4242) [] =
       Inr ((VimWindow_do_init ''0'' 4242)
             \<lparr>oldservers := Some [], events := [(''serverlist'', [StrList []])]\<rparr>)
   \<and> events ((VimWindow_do_init ''0'' 4242)
             \<lparr>oldservers := Some [], events := [(''serverlist'', [StrList []])]\<rparr>)
       = events (VimWindow_do_init ''0'' 4242) @ [(''serverlist'', [StrList []])]"
proof -
  have i: "oldservers (VimWindow_do_init ''0'' 4242) = None" "events (VimWindow_do_init ''0'' 4242) = []"
    by (simp_all add: VimWindow_do_init_def)
  have g: "gotservers example_display (VimWindow_do_init ''0'' 4242) [] =
       Inr ((VimWindow_do_init ''0'' 4242)
             \<lparr>oldservers := Some [], events := [(''serverlist'', [StrList []])]\<rparr>)"
    by (simp add: gotservers_def feed_serverlist_def do_evt_def i)
  from first_cycle_feeds [OF i(1) g] i(1) g show ?thesis by blast
qed

section \<open>VimHidden: the liveness probe\<close>

lemma start_pid_nonzero: "pid self \<noteq> Some 0 \<Longrightarrow> pid (start forked self) \<noteq> Some 0"
  by (simp add: start_def)

lemma do_init_pid_nonzero: "pid (vim_hidden (VimWindow_do_init now forked)) \<noteq> Some 0"
  by (simp add: VimWindow_do_init_def VimHidden_do_init_def start_def)

lemma is_alive_pid_nonzero: "pid self \<noteq> Some 0 \<Longrightarrow> pid (snd (is_alive waitpid self)) \<noteq> Some 0"
  by (simp add: is_alive_def split: waitpid_result.splits)

text \<open>
  C8. \<open>is_alive\<close> returns \<open>False\<close> and changes nothing when no pid is stored; with a
  pid stored, it returns \<open>False\<close> and clears the pid when \<open>waitpid\<close> returns that
  pid, returns \<open>False\<close> and keeps the pid when \<open>waitpid\<close> raises OSError, and returns
  \<open>True\<close> and keeps the pid when \<open>waitpid\<close> returns another pid. A stored pid is
  never 0: \<open>start\<close> stores only the pid that the parent gets.
\<close>

theorem is_alive_cases:
  "(pid self = None \<longrightarrow> is_alive waitpid self = (False, self))
   \<and> (pid self = Some p \<and> p \<noteq> 0 \<and> waitpid p = Returns p sts \<longrightarrow>
        is_alive waitpid self = (False, self\<lparr>pid := None\<rparr>))
   \<and> (pid self = Some p \<and> p \<noteq> 0 \<and> waitpid p = Raises_OSError \<longrightarrow>
        is_alive waitpid self = (False, self))
   \<and> (pid self = Some p \<and> p \<noteq> 0 \<and> waitpid p = Returns q sts \<and> q \<noteq> p \<longrightarrow>
        is_alive waitpid self = (True, self))"
  by (simp add: is_alive_def pid_set_def)


theorem is_alive_cases_witness:
  "pid (VimHidden_do_init ''0'') = None
   \<and> is_alive (\<lambda>p. Returns 0 0) (VimHidden_do_init ''0'') = (False, VimHidden_do_init ''0'')
   \<and> pid (start 4242 (VimHidden_do_init ''0'')) = Some 4242 \<and> (4242::int) \<noteq> 0
   \<and> is_alive (\<lambda>p. Returns 4242 0) (start 4242 (VimHidden_do_init ''0''))
        = (False, VimHidden_do_init ''0'')
   \<and> is_alive (\<lambda>p. Raises_OSError) (start 4242 (VimHidden_do_init ''0''))
        = (False, start 4242 (VimHidden_do_init ''0''))
   \<and> is_alive (\<lambda>p. Returns 0 0) (start 4242 (VimHidden_do_init ''0''))
        = (True, start 4242 (VimHidden_do_init ''0''))"
proof -
  have n: "pid (VimHidden_do_init ''0'') = None" by (simp add: VimHidden_do_init_def)
  have s: "pid (start 4242 (VimHidden_do_init ''0'')) = Some 4242"
    by (simp add: VimHidden_do_init_def start_def pid_set_def)
  have z: "(4242::int) \<noteq> 0" "(0::int) \<noteq> 4242" by simp_all
  have c: "(start 4242 (VimHidden_do_init ''0''))\<lparr>pid := None\<rparr> = VimHidden_do_init ''0''"
    by (simp add: VimHidden_do_init_def start_def pid_set_def)
  have 1: "is_alive (\<lambda>p. Returns 0 0) (VimHidden_do_init ''0'') = (False, VimHidden_do_init ''0'')"
    using is_alive_cases [where self = "VimHidden_do_init ''0''" and waitpid = "\<lambda>p. Returns 0 0",
        THEN conjunct1, THEN mp, OF n] .
  have 2: "is_alive (\<lambda>p. Returns 4242 0) (start 4242 (VimHidden_do_init ''0''))
        = (False, VimHidden_do_init ''0'')"
    using is_alive_cases [where self = "start 4242 (VimHidden_do_init ''0'')"
        and waitpid = "\<lambda>p. Returns 4242 0" and p = 4242 and sts = 0,
        THEN conjunct2, THEN conjunct1, THEN mp] s z c by simp
  have 3: "is_alive (\<lambda>p. Raises_OSError) (start 4242 (VimHidden_do_init ''0''))
        = (False, start 4242 (VimHidden_do_init ''0''))"
    using is_alive_cases [where self = "start 4242 (VimHidden_do_init ''0'')"
        and waitpid = "\<lambda>p. Raises_OSError" and p = 4242,
        THEN conjunct2, THEN conjunct2, THEN conjunct1, THEN mp] s z by simp
  have 4: "is_alive (\<lambda>p. Returns 0 0) (start 4242 (VimHidden_do_init ''0''))
        = (True, start 4242 (VimHidden_do_init ''0''))"
    using is_alive_cases [where self = "start 4242 (VimHidden_do_init ''0'')"
        and waitpid = "\<lambda>p. Returns 0 0" and p = 4242 and q = 0 and sts = 0,
        THEN conjunct2, THEN conjunct2, THEN conjunct2, THEN mp] s z by simp
  show ?thesis using n s z 1 2 3 4 by blast
qed

end
